theory Spec2Isabelle
  imports Main "HOL-Library.Word"
begin

unbundle bit_operations_syntax

section \<open>The database objects behind the network adapter\<close>

text \<open>
  The adapter \<^verbatim>\<open>dbNetwork\<close> hands the timing engine opaque pointers
  (\<^verbatim>\<open>Instance*\<close>, \<^verbatim>\<open>Pin*\<close>, \<^verbatim>\<open>Net*\<close>, \<^verbatim>\<open>Term*\<close>) that are
  database objects reinterpreted.  Every database object records its type
  (\<^verbatim>\<open>getObjectType()\<close>) and its number within that type (\<^verbatim>\<open>getId()\<close>, an
  unsigned 32-bit value).  A pointer to a database object is modelled by that pair; the
  null pointer is \<open>None\<close>.
\<close>

type_synonym dbId = "32 word"

text \<open>
  The type tags named in \<^verbatim>\<open>dbNetwork.cc\<close>, followed by some of the database's other
  object types (the enumeration itself is declared by the database, outside this file).
\<close>

datatype dbObjectType =
    dbITermObj | dbBTermObj | dbInstObj | dbNetObj
  | dbModITermObj | dbModBTermObj | dbModInstObj | dbModNetObj | dbModuleObj
  | dbBlockObj | dbMasterObj | dbMTermObj | dbLibObj | dbChipObj

datatype dbObject = dbObject (getObjectType: dbObjectType) (getId: dbId)

type_synonym Pin = "dbObject option"
type_synonym Net = "dbObject option"
type_synonym Term = "dbObject option"

text \<open>
  \<^verbatim>\<open>top_instance_\<close> is the constant pointer \<^verbatim>\<open>reinterpret_cast<Instance*>(1)\<close>,
  not a database object.
\<close>

datatype InstanceObj = top_instance | dbInstance dbObject

type_synonym Instance = "InstanceObj option"

datatype dbSigType = SIGNAL | POWER | GROUND | CLOCK | ANALOG | RESET | SCAN | TIEOFF

datatype dbIoType = INPUT | OUTPUT | INOUT | FEEDTHRU

definition isSupply :: "dbSigType \<Rightarrow> bool" where
  "isSupply s = (s = POWER \<or> s = GROUND)"

record dbITerm =
  iterm_inst :: dbId
  iterm_mterm :: dbId
  iterm_net :: "dbId option"
  iterm_modnet :: "dbId option"
  iterm_sigtype :: dbSigType
  iterm_iotype :: dbIoType

record dbBTerm =
  bterm_name :: string
  bterm_net :: "dbId option"
  bterm_modnet :: "dbId option"
  bterm_sigtype :: dbSigType
  bterm_iotype :: dbIoType

record dbModITerm =
  moditerm_name :: string
  moditerm_parent :: dbId
  moditerm_modnet :: "dbId option"

record dbModBTerm =
  modbterm_name :: string
  modbterm_parent :: dbId
  modbterm_modnet :: "dbId option"
  modbterm_sigtype :: dbSigType
  modbterm_iotype :: dbIoType

record dbInst =
  inst_name :: string
  inst_master :: dbId
  inst_module :: dbId

record dbModInst =
  modinst_name :: string
  modinst_parent :: dbId
  modinst_master :: dbId

record dbModule =
  module_getName :: string
  module_modinst :: "dbId option"

record dbNet =
  net_name :: string
  net_sigtype :: dbSigType

text \<open>
  A block: for every object type the numbers in use (in table order, the order in which
  a \<^verbatim>\<open>dbSet\<close> is walked) and the fields of each object.  A pointer handed to the
  adapter is assumed valid, so field access is total.  The member lists of a net or a
  module (\<^verbatim>\<open>getITerms()\<close>, \<^verbatim>\<open>getModInsts()\<close>, ...) are read off the
  back-references of the members, which is how the database keeps the two directions
  in step.
\<close>

record dbBlock =
  iterm_ids :: "dbId list"
  iterms :: "dbId \<Rightarrow> dbITerm"
  bterm_ids :: "dbId list"
  bterms :: "dbId \<Rightarrow> dbBTerm"
  moditerm_ids :: "dbId list"
  moditerms :: "dbId \<Rightarrow> dbModITerm"
  modbterm_ids :: "dbId list"
  modbterms :: "dbId \<Rightarrow> dbModBTerm"
  inst_ids :: "dbId list"
  insts :: "dbId \<Rightarrow> dbInst"
  modinst_ids :: "dbId list"
  modinsts :: "dbId \<Rightarrow> dbModInst"
  module_ids :: "dbId list"
  modules :: "dbId \<Rightarrow> dbModule"
  net_ids :: "dbId list"
  nets :: "dbId \<Rightarrow> dbNet"
  modnet_ids :: "dbId list"
  top_module :: dbId

section \<open>Classification of opaque pointers\<close>

text \<open>
  The logger: \<^verbatim>\<open>warn\<close> records a message and returns; \<^verbatim>\<open>error\<close> and
  \<^verbatim>\<open>critical\<close> do not return to the caller.  Messages are identified by their number.
\<close>

datatype fatal = log_error nat | log_critical nat | null_dereference

text \<open>\<^verbatim>\<open>staToDb(const Pin*, iterm, bterm, moditerm, modbterm)\<close>: the four results and
  the warnings logged.\<close>

type_synonym pin_alternatives = "dbId option \<times> dbId option \<times> dbId option \<times> dbId option"

definition staToDb_pin :: "Pin \<Rightarrow> pin_alternatives \<times> nat list" where
  "staToDb_pin pin =
     (case pin of
        None \<Rightarrow> ((None, None, None, None), [])
      | Some obj \<Rightarrow>
          if getObjectType obj = dbITermObj then ((Some (getId obj), None, None, None), [])
          else if getObjectType obj = dbBTermObj then ((None, Some (getId obj), None, None), [])
          else if getObjectType obj = dbModBTermObj then ((None, None, None, Some (getId obj)), [])
          else if getObjectType obj = dbModITermObj then ((None, None, Some (getId obj), None), [])
          else ((None, None, None, None), [2018]))"

text \<open>\<^verbatim>\<open>staToDb(const Term*, iterm, bterm, moditerm, modbterm)\<close>: no message on an
  unrecognised type.\<close>

definition staToDb_term :: "Term \<Rightarrow> pin_alternatives" where
  "staToDb_term t =
     (case t of
        None \<Rightarrow> (None, None, None, None)
      | Some obj \<Rightarrow>
          if getObjectType obj = dbITermObj then (Some (getId obj), None, None, None)
          else if getObjectType obj = dbBTermObj then (None, Some (getId obj), None, None)
          else if getObjectType obj = dbModBTermObj then (None, None, None, Some (getId obj))
          else if getObjectType obj = dbModITermObj then (None, None, Some (getId obj), None)
          else (None, None, None, None))"

text \<open>\<^verbatim>\<open>staToDb(const Net*, dnet, modnet)\<close>.\<close>

definition staToDb_net :: "Net \<Rightarrow> dbId option \<times> dbId option" where
  "staToDb_net net =
     (case net of
        None \<Rightarrow> (None, None)
      | Some obj \<Rightarrow>
          if getObjectType obj = dbNetObj then (Some (getId obj), None)
          else if getObjectType obj = dbModNetObj then (None, Some (getId obj))
          else (None, None))"

text \<open>\<^verbatim>\<open>staToDb(const Instance*, db_inst, mod_inst)\<close>: an object that is neither a
  \<^verbatim>\<open>dbInst\<close> nor a \<^verbatim>\<open>dbModInst\<close> is critical.\<close>

definition staToDb_instance :: "Instance \<Rightarrow> fatal + (dbId option \<times> dbId option)" where
  "staToDb_instance inst =
     (case inst of
        Some (dbInstance obj) \<Rightarrow>
          if getObjectType obj = dbInstObj then Inr (Some (getId obj), None)
          else if getObjectType obj = dbModInstObj then Inr (None, Some (getId obj))
          else Inl (log_critical 2016)
      | _ \<Rightarrow> Inr (None, None))"

text \<open>The \<^verbatim>\<open>dbToSta\<close> casts.\<close>

definition dbToSta_iterm :: "dbId \<Rightarrow> Pin" where
  "dbToSta_iterm i = Some (dbObject dbITermObj i)"

definition dbToSta_bterm :: "dbId \<Rightarrow> Pin" where
  "dbToSta_bterm i = Some (dbObject dbBTermObj i)"

definition dbToSta_moditerm :: "dbId \<Rightarrow> Pin" where
  "dbToSta_moditerm i = Some (dbObject dbModITermObj i)"

definition dbToStaPin :: "dbId option \<Rightarrow> Pin" where
  "dbToStaPin mb = map_option (dbObject dbModBTermObj) mb"

definition dbToStaTerm_bterm :: "dbId \<Rightarrow> Term" where
  "dbToStaTerm_bterm i = Some (dbObject dbBTermObj i)"

definition dbToStaTerm_modbterm :: "dbId \<Rightarrow> Term" where
  "dbToStaTerm_modbterm i = Some (dbObject dbModBTermObj i)"

definition dbToSta_net :: "dbId option \<Rightarrow> Net" where
  "dbToSta_net n = map_option (dbObject dbNetObj) n"

definition dbToSta_modnet :: "dbId option \<Rightarrow> Net" where
  "dbToSta_modnet n = map_option (dbObject dbModNetObj) n"

definition dbToSta_inst :: "dbId option \<Rightarrow> Instance" where
  "dbToSta_inst i = map_option (\<lambda>x. dbInstance (dbObject dbInstObj x)) i"

definition dbToSta_modinst :: "dbId option \<Rightarrow> Instance" where
  "dbToSta_modinst i = map_option (\<lambda>x. dbInstance (dbObject dbModInstObj x)) i"

section \<open>Object identifiers\<close>

text \<open>
  \<^verbatim>\<open>ObjectId\<close> is an unsigned 32-bit integer.  In hierarchy mode the database number
  is shifted left by \<^verbatim>\<open>DBIDTAG_WIDTH\<close> and a per-type tag is or-ed into the low bits
  (``lower 4 bits used to encode type'').  The nine tag constants are declared in the
  adapter's header \<^verbatim>\<open>dbNetwork.hh\<close>; their values are a parameter here.
\<close>

definition DBIDTAG_WIDTH :: nat where
  "DBIDTAG_WIDTH = 4"

record id_tags =
  DBITERM_ID :: "32 word"
  DBBTERM_ID :: "32 word"
  DBINST_ID :: "32 word"
  DBNET_ID :: "32 word"
  DBMODITERM_ID :: "32 word"
  DBMODBTERM_ID :: "32 word"
  DBMODINST_ID :: "32 word"
  DBMODNET_ID :: "32 word"
  DBMODULE_ID :: "32 word"



definition getDbNwkObjectId :: "id_tags \<Rightarrow> dbObjectType \<Rightarrow> dbId \<Rightarrow> fatal + 32 word" where
  "getDbNwkObjectId tags typ db_id =
     (if db_id > drop_bit DBIDTAG_WIDTH (- 1) then Inl (log_error 2019)
      else (case typ of
              dbITermObj \<Rightarrow> Inr (push_bit DBIDTAG_WIDTH db_id OR DBITERM_ID tags)
            | dbBTermObj \<Rightarrow> Inr (push_bit DBIDTAG_WIDTH db_id OR DBBTERM_ID tags)
            | dbInstObj \<Rightarrow> Inr (push_bit DBIDTAG_WIDTH db_id OR DBINST_ID tags)
            | dbNetObj \<Rightarrow> Inr (push_bit DBIDTAG_WIDTH db_id OR DBNET_ID tags)
            | dbModITermObj \<Rightarrow> Inr (push_bit DBIDTAG_WIDTH db_id OR DBMODITERM_ID tags)
            | dbModBTermObj \<Rightarrow> Inr (push_bit DBIDTAG_WIDTH db_id OR DBMODBTERM_ID tags)
            | dbModInstObj \<Rightarrow> Inr (push_bit DBIDTAG_WIDTH db_id OR DBMODINST_ID tags)
            | dbModNetObj \<Rightarrow> Inr (push_bit DBIDTAG_WIDTH db_id OR DBMODNET_ID tags)
            | dbModuleObj \<Rightarrow> Inr (push_bit DBIDTAG_WIDTH db_id OR DBMODULE_ID tags)
            | _ \<Rightarrow> Inl (log_error 2017)))"


text \<open>\<^verbatim>\<open>dbNetwork::id(const Pin*)\<close> (the warning of the classification is not kept).\<close>

definition id_pin :: "bool \<Rightarrow> id_tags \<Rightarrow> Pin \<Rightarrow> fatal + 32 word" where
  "id_pin hierarchy tags pin =
     (case fst (staToDb_pin pin) of (iterm, bterm, moditerm, modbterm) \<Rightarrow>
        if hierarchy then
          (case pin of
             Some obj \<Rightarrow> getDbNwkObjectId tags (getObjectType obj) (getId obj)
           | None \<Rightarrow> Inl null_dereference)
        else
          (case iterm of
             Some i \<Rightarrow> Inr (push_bit 1 i)
           | None \<Rightarrow>
               (case bterm of
                  Some b \<Rightarrow> Inr (push_bit 1 b + 1)
                | None \<Rightarrow> Inr 0)))"

text \<open>\<^verbatim>\<open>dbNetwork::id(const Net*)\<close>.\<close>

definition id_net :: "bool \<Rightarrow> id_tags \<Rightarrow> Net \<Rightarrow> fatal + 32 word" where
  "id_net hierarchy tags net =
     (case staToDb_net net of (dnet, modnet) \<Rightarrow>
        if hierarchy then
          (case net of
             Some obj \<Rightarrow> getDbNwkObjectId tags (getObjectType obj) (getId obj)
           | None \<Rightarrow> Inl null_dereference)
        else
          (case dnet of Some d \<Rightarrow> Inr d | None \<Rightarrow> Inl null_dereference))"









text \<open>The tag values of the adapter's header.\<close>

definition header_tags :: id_tags where
  "header_tags =
     \<lparr>DBITERM_ID = 0, DBBTERM_ID = 1, DBINST_ID = 2, DBNET_ID = 3, DBMODITERM_ID = 4,
      DBMODBTERM_ID = 5, DBMODINST_ID = 6, DBMODNET_ID = 7, DBMODULE_ID = 8\<rparr>"

section \<open>Pins, terms and their nets\<close>

text \<open>Name lookups of the database: the first object in table order with the name.\<close>

definition findModBTerm :: "dbBlock \<Rightarrow> dbId \<Rightarrow> string \<Rightarrow> dbId option" where
  "findModBTerm db module name =
     find (\<lambda>b. modbterm_parent (modbterms db b) = module \<and> modbterm_name (modbterms db b) = name)
       (modbterm_ids db)"

definition findModITerm :: "dbBlock \<Rightarrow> dbId \<Rightarrow> string \<Rightarrow> dbId option" where
  "findModITerm db mod_inst name =
     find (\<lambda>i. moditerm_parent (moditerms db i) = mod_inst \<and> moditerm_name (moditerms db i) = name)
       (moditerm_ids db)"

definition findBTerm :: "dbBlock \<Rightarrow> string \<Rightarrow> dbId option" where
  "findBTerm db name = find (\<lambda>b. bterm_name (bterms db b) = name) (bterm_ids db)"

text \<open>\<^verbatim>\<open>dbNetwork::net(const Pin*)\<close>.\<close>

definition net_pin :: "dbBlock \<Rightarrow> Pin \<Rightarrow> Net" where
  "net_pin db pin =
     (case fst (staToDb_pin pin) of (iterm, bterm, moditerm, modbterm) \<Rightarrow>
        (case (case iterm of
                 Some it \<Rightarrow>
                   (case iterm_modnet (iterms db it) of
                      Some mnet \<Rightarrow> Some (dbToSta_modnet (Some mnet))
                    | None \<Rightarrow>
                        (case iterm_net (iterms db it) of
                           Some dnet \<Rightarrow> Some (dbToSta_net (Some dnet))
                         | None \<Rightarrow> None))
               | None \<Rightarrow> None) of
           Some r \<Rightarrow> r
         | None \<Rightarrow>
             if bterm \<noteq> None then None
             else (case moditerm of
                     Some mi \<Rightarrow> dbToSta_modnet (moditerm_modnet (moditerms db mi))
                   | None \<Rightarrow>
                       (case modbterm of
                          Some mb \<Rightarrow> dbToSta_modnet (modbterm_modnet (modbterms db mb))
                        | None \<Rightarrow> None))))"

text \<open>\<^verbatim>\<open>dbNetwork::term(const Pin*)\<close>.  The port name of a module terminal is what
  follows the last \<^verbatim>\<open>/\<close> of its name.\<close>

definition after_last_slash :: "string \<Rightarrow> string" where
  "after_last_slash s = rev (takeWhile (\<lambda>c. c \<noteq> CHR ''/'') (rev s))"

definition term_pin :: "dbBlock \<Rightarrow> Pin \<Rightarrow> Term" where
  "term_pin db pin =
     (case fst (staToDb_pin pin) of (iterm, bterm, moditerm, modbterm) \<Rightarrow>
        if iterm \<noteq> None then None
        else (case bterm of
                Some b \<Rightarrow> dbToStaTerm_bterm b
              | None \<Rightarrow>
                  (case (case moditerm of
                           Some mi \<Rightarrow>
                             map_option dbToStaTerm_modbterm
                               (findModBTerm db
                                  (modinst_master (modinsts db (moditerm_parent (moditerms db mi))))
                                  (after_last_slash (moditerm_name (moditerms db mi))))
                         | None \<Rightarrow> None) of
                     Some r \<Rightarrow> r
                   | None \<Rightarrow>
                       (case modbterm of
                          Some mb \<Rightarrow> dbToStaTerm_modbterm mb
                        | None \<Rightarrow> None))))"

text \<open>\<^verbatim>\<open>dbNetwork::net(const Term*)\<close>.\<close>

definition net_term :: "dbBlock \<Rightarrow> Term \<Rightarrow> Net" where
  "net_term db t =
     (case staToDb_term t of (iterm, bterm, moditerm, modbterm) \<Rightarrow>
        (case modbterm of
           Some mb \<Rightarrow> dbToSta_modnet (modbterm_modnet (modbterms db mb))
         | None \<Rightarrow>
             (case bterm of
                Some b \<Rightarrow>
                  (case bterm_modnet (bterms db b) of
                     Some mod_net \<Rightarrow> dbToSta_modnet (Some mod_net)
                   | None \<Rightarrow>
                       (case bterm_net (bterms db b) of
                          Some dnet \<Rightarrow> dbToSta_net (Some dnet)
                        | None \<Rightarrow> None))
              | None \<Rightarrow> None)))"

section \<open>Member lists\<close>

text \<open>The \<^verbatim>\<open>dbSet\<close>s of a net, a module and an instance, in table order.\<close>

definition net_getITerms :: "dbBlock \<Rightarrow> dbId \<Rightarrow> dbId list" where
  "net_getITerms db dnet = filter (\<lambda>i. iterm_net (iterms db i) = Some dnet) (iterm_ids db)"

definition net_getBTerms :: "dbBlock \<Rightarrow> dbId \<Rightarrow> dbId list" where
  "net_getBTerms db dnet = filter (\<lambda>b. bterm_net (bterms db b) = Some dnet) (bterm_ids db)"

definition modnet_getITerms :: "dbBlock \<Rightarrow> dbId \<Rightarrow> dbId list" where
  "modnet_getITerms db mnet = filter (\<lambda>i. iterm_modnet (iterms db i) = Some mnet) (iterm_ids db)"

definition modnet_getBTerms :: "dbBlock \<Rightarrow> dbId \<Rightarrow> dbId list" where
  "modnet_getBTerms db mnet = filter (\<lambda>b. bterm_modnet (bterms db b) = Some mnet) (bterm_ids db)"

definition modnet_getModITerms :: "dbBlock \<Rightarrow> dbId \<Rightarrow> dbId list" where
  "modnet_getModITerms db mnet =
     filter (\<lambda>i. moditerm_modnet (moditerms db i) = Some mnet) (moditerm_ids db)"

definition modnet_getModBTerms :: "dbBlock \<Rightarrow> dbId \<Rightarrow> dbId list" where
  "modnet_getModBTerms db mnet =
     filter (\<lambda>b. modbterm_modnet (modbterms db b) = Some mnet) (modbterm_ids db)"

definition module_getInsts :: "dbBlock \<Rightarrow> dbId \<Rightarrow> dbId list" where
  "module_getInsts db m = filter (\<lambda>i. inst_module (insts db i) = m) (inst_ids db)"

definition module_getModInsts :: "dbBlock \<Rightarrow> dbId \<Rightarrow> dbId list" where
  "module_getModInsts db m = filter (\<lambda>i. modinst_parent (modinsts db i) = m) (modinst_ids db)"

definition inst_getITerms :: "dbBlock \<Rightarrow> dbId \<Rightarrow> dbId list" where
  "inst_getITerms db inst = filter (\<lambda>i. iterm_inst (iterms db i) = inst) (iterm_ids db)"

definition modinst_getModITerms :: "dbBlock \<Rightarrow> dbId \<Rightarrow> dbId list" where
  "modinst_getModITerms db mi =
     filter (\<lambda>i. moditerm_parent (moditerms db i) = mi) (moditerm_ids db)"

section \<open>Hierarchy navigation\<close>

text \<open>
  In what follows a design is loaded: \<^verbatim>\<open>block_\<close> and \<^verbatim>\<open>top_cell_\<close> are set, so
  \<^verbatim>\<open>topInstance()\<close> is \<^verbatim>\<open>top_instance_\<close> and the tests for a block succeed.
  An iterator is its remaining elements; a default-constructed \<^verbatim>\<open>dbSet\<close> iterator
  pair is an empty range.
\<close>

record child_iterator =
  child_top :: bool
  dbinst_iter :: "dbId list"
  modinst_iter :: "dbId list"

text \<open>The constructor of \<^verbatim>\<open>DbInstanceChildIterator\<close>.\<close>

definition DbInstanceChildIterator :: "bool \<Rightarrow> dbBlock \<Rightarrow> Instance \<Rightarrow> fatal + child_iterator" where
  "DbInstanceChildIterator hierarchy db inst =
     (if \<not> hierarchy then
        (if inst = Some top_instance then
           Inr \<lparr>child_top = True, dbinst_iter = inst_ids db, modinst_iter = []\<rparr>
         else Inr \<lparr>child_top = False, dbinst_iter = [], modinst_iter = []\<rparr>)
      else
        (case (if inst = Some top_instance then Inr (True, Some (top_module db))
               else (case staToDb_instance inst of
                       Inl e \<Rightarrow> Inl e
                     | Inr (db_inst, mod_inst) \<Rightarrow>
                         Inr (False, map_option (\<lambda>mi. modinst_master (modinsts db mi)) mod_inst))) of
           Inl e \<Rightarrow> Inl e
         | Inr (is_top, the_module) \<Rightarrow>
             (case the_module of
                Some m \<Rightarrow>
                  Inr \<lparr>child_top = is_top, dbinst_iter = module_getInsts db m,
                       modinst_iter = module_getModInsts db m\<rparr>
              | None \<Rightarrow> Inr \<lparr>child_top = is_top, dbinst_iter = [], modinst_iter = []\<rparr>)))"

definition child_hasNext :: "child_iterator \<Rightarrow> bool" where
  "child_hasNext it = (\<not> (dbinst_iter it = [] \<and> modinst_iter it = []))"

fun child_next :: "child_iterator \<Rightarrow> Instance \<times> child_iterator" where
  "child_next it =
     (case dbinst_iter it of
        child # rest \<Rightarrow> (dbToSta_inst (Some child), it\<lparr>dbinst_iter := rest\<rparr>)
      | [] \<Rightarrow>
          (case modinst_iter it of
             child # rest \<Rightarrow> (dbToSta_modinst (Some child), it\<lparr>modinst_iter := rest\<rparr>)
           | [] \<Rightarrow> (None, it)))"

text \<open>The caller's loop \<^verbatim>\<open>while (it->hasNext()) { ... it->next() ... }\<close>: the children
  produced, in order.\<close>

function children :: "child_iterator \<Rightarrow> Instance list" where
  "children it =
     (if child_hasNext it then (case child_next it of (c, it') \<Rightarrow> c # children it') else [])"
  by pat_completeness auto
termination
  by (relation "measure (\<lambda>it. length (dbinst_iter it) + length (modinst_iter it))")
     (auto simp add: child_hasNext_def split: list.splits)

declare children.simps [simp del]

definition childIterator :: "bool \<Rightarrow> dbBlock \<Rightarrow> Instance \<Rightarrow> fatal + Instance list" where
  "childIterator hierarchy db inst = map_sum id children (DbInstanceChildIterator hierarchy db inst)"

text \<open>\<^verbatim>\<open>dbNetwork::parent\<close>.\<close>

definition parent :: "dbBlock \<Rightarrow> Instance \<Rightarrow> fatal + Instance" where
  "parent db inst =
     (if inst = Some top_instance then Inr None
      else
        (case staToDb_instance inst of
           Inl e \<Rightarrow> Inl e
         | Inr (db_inst, mod_inst) \<Rightarrow>
             (case mod_inst of
                Some mi \<Rightarrow>
                  (case module_modinst (modules db (modinst_parent (modinsts db mi))) of
                     Some parent_inst \<Rightarrow> Inr (dbToSta_modinst (Some parent_inst))
                   | None \<Rightarrow> Inr (Some top_instance))
              | None \<Rightarrow> Inr (Some top_instance))))"

section \<open>Pin iterators\<close>

text \<open>
  The loop at the head of both \<^verbatim>\<open>hasNext()\<close> functions: step over the flat terminals
  whose signal type is a supply, stop at the first other one.
\<close>

fun next_signal_iterm :: "dbBlock \<Rightarrow> dbId list \<Rightarrow> (dbId \<times> dbId list) option" where
  "next_signal_iterm db [] = None"
| "next_signal_iterm db (iterm # rest) =
     (if \<not> isSupply (iterm_sigtype (iterms db iterm)) then Some (iterm, rest)
      else next_signal_iterm db rest)"

record instance_pin_iterator =
  pin_top :: bool
  inst_iitr :: "dbId list"
  inst_bitr :: "dbId list"
  inst_mi_itr :: "dbId list"
  inst_next :: Pin

text \<open>
  The constructor of \<^verbatim>\<open>DbInstancePinIterator\<close>.  Its last branch tests the member
  \<^verbatim>\<open>mod_inst_\<close>, which was set to null three lines above, not the local
  \<^verbatim>\<open>mod_inst\<close>; the branch is never taken.
\<close>

definition DbInstancePinIterator :: "bool \<Rightarrow> dbBlock \<Rightarrow> Instance \<Rightarrow> fatal + instance_pin_iterator" where
  "DbInstancePinIterator hierarchy db inst =
     (if inst = Some top_instance then
        Inr \<lparr>pin_top = True, inst_iitr = [], inst_bitr = bterm_ids db, inst_mi_itr = [],
             inst_next = None\<rparr>
      else
        (case staToDb_instance inst of
           Inl e \<Rightarrow> Inl e
         | Inr (db_inst, mod_inst) \<Rightarrow>
             (let mod_inst_member = (None :: dbId option) in
              case db_inst of
                Some d \<Rightarrow>
                  Inr \<lparr>pin_top = False, inst_iitr = inst_getITerms db d, inst_bitr = [],
                       inst_mi_itr = [], inst_next = None\<rparr>
              | None \<Rightarrow>
                  (case mod_inst_member of
                     Some mi \<Rightarrow>
                       Inr \<lparr>pin_top = False, inst_iitr = [], inst_bitr = [],
                            inst_mi_itr = (if hierarchy then modinst_getModITerms db mi else []),
                            inst_next = None\<rparr>
                   | None \<Rightarrow>
                       Inr \<lparr>pin_top = False, inst_iitr = [], inst_bitr = [], inst_mi_itr = [],
                            inst_next = None\<rparr>))))"

text \<open>\<^verbatim>\<open>DbInstancePinIterator::hasNext\<close>: the answer and the iterator after the call.\<close>

definition inst_pin_hasNext :: "bool \<Rightarrow> dbBlock \<Rightarrow> instance_pin_iterator \<Rightarrow> bool \<times> instance_pin_iterator" where
  "inst_pin_hasNext hierarchy db it =
     (if pin_top it then
        (case inst_bitr it of
           [] \<Rightarrow> (False, it)
         | bterm # rest \<Rightarrow> (True, it\<lparr>inst_next := dbToSta_bterm bterm, inst_bitr := rest\<rparr>))
      else
        (case next_signal_iterm db (inst_iitr it) of
           Some (iterm, rest) \<Rightarrow> (True, it\<lparr>inst_next := dbToSta_iterm iterm, inst_iitr := rest\<rparr>)
         | None \<Rightarrow>
             (case inst_mi_itr it of
                mod_iterm # rest \<Rightarrow>
                  if hierarchy then
                    (True, it\<lparr>inst_iitr := [], inst_next := dbToSta_moditerm mod_iterm,
                              inst_mi_itr := rest\<rparr>)
                  else (False, it\<lparr>inst_iitr := []\<rparr>)
              | [] \<Rightarrow> (False, it\<lparr>inst_iitr := []\<rparr>))))"

lemma next_signal_iterm_shorter:
  "next_signal_iterm db xs = Some (i, rest) \<Longrightarrow> length rest < length xs"
  by (induction xs) (auto split: if_splits)

text \<open>The caller's loop \<^verbatim>\<open>while (it->hasNext()) { ... it->next() ... }\<close>, with
  \<^verbatim>\<open>next()\<close> returning \<^verbatim>\<open>next_\<close>.\<close>

function inst_pins :: "bool \<Rightarrow> dbBlock \<Rightarrow> instance_pin_iterator \<Rightarrow> Pin list" where
  "inst_pins hierarchy db it =
     (case inst_pin_hasNext hierarchy db it of
        (True, it') \<Rightarrow> inst_next it' # inst_pins hierarchy db it'
      | (False, it') \<Rightarrow> [])"
  by pat_completeness auto
termination
  by (relation "measure (\<lambda>(h, db, it).
        length (inst_bitr it) + length (inst_iitr it) + length (inst_mi_itr it))")
     (auto simp add: inst_pin_hasNext_def split: list.splits option.splits if_splits
           dest: next_signal_iterm_shorter)

declare inst_pins.simps [simp del]

definition pinIterator_instance :: "bool \<Rightarrow> dbBlock \<Rightarrow> Instance \<Rightarrow> fatal + Pin list" where
  "pinIterator_instance hierarchy db inst =
     map_sum id (inst_pins hierarchy db) (DbInstancePinIterator hierarchy db inst)"

record net_pin_iterator =
  net_iitr :: "dbId list"
  net_mitr :: "dbId list"
  net_next :: Pin

text \<open>The constructor of \<^verbatim>\<open>DbNetPinIterator\<close>.\<close>

definition DbNetPinIterator :: "dbBlock \<Rightarrow> Net \<Rightarrow> net_pin_iterator" where
  "DbNetPinIterator db net =
     (case staToDb_net net of (dnet, modnet) \<Rightarrow>
        (let it = \<lparr>net_iitr = [], net_mitr = [], net_next = None\<rparr>;
             it = (case dnet of Some d \<Rightarrow> it\<lparr>net_iitr := net_getITerms db d\<rparr> | None \<Rightarrow> it)
         in (case modnet of
               Some m \<Rightarrow> it\<lparr>net_iitr := modnet_getITerms db m, net_mitr := modnet_getModITerms db m\<rparr>
             | None \<Rightarrow> it)))"

text \<open>\<^verbatim>\<open>DbNetPinIterator::hasNext\<close>.\<close>

definition net_pin_hasNext :: "bool \<Rightarrow> dbBlock \<Rightarrow> net_pin_iterator \<Rightarrow> bool \<times> net_pin_iterator" where
  "net_pin_hasNext hierarchy db it =
     (case next_signal_iterm db (net_iitr it) of
        Some (iterm, rest) \<Rightarrow> (True, it\<lparr>net_next := dbToSta_iterm iterm, net_iitr := rest\<rparr>)
      | None \<Rightarrow>
          (case net_mitr it of
             mod_iterm # rest \<Rightarrow>
               if hierarchy then
                 (True, it\<lparr>net_iitr := [], net_next := dbToSta_moditerm mod_iterm, net_mitr := rest\<rparr>)
               else (False, it\<lparr>net_iitr := []\<rparr>)
           | [] \<Rightarrow> (False, it\<lparr>net_iitr := []\<rparr>)))"

function net_pins :: "bool \<Rightarrow> dbBlock \<Rightarrow> net_pin_iterator \<Rightarrow> Pin list" where
  "net_pins hierarchy db it =
     (case net_pin_hasNext hierarchy db it of
        (True, it') \<Rightarrow> net_next it' # net_pins hierarchy db it'
      | (False, it') \<Rightarrow> [])"
  by pat_completeness auto
termination
  by (relation "measure (\<lambda>(h, db, it). length (net_iitr it) + length (net_mitr it))")
     (auto simp add: net_pin_hasNext_def split: list.splits option.splits if_splits
           dest: next_signal_iterm_shorter)

declare net_pins.simps [simp del]

definition pinIterator_net :: "bool \<Rightarrow> dbBlock \<Rightarrow> Net \<Rightarrow> Pin list" where
  "pinIterator_net hierarchy db net = net_pins hierarchy db (DbNetPinIterator db net)"

text \<open>
  \<^verbatim>\<open>isPower\<close> and \<^verbatim>\<open>isGround\<close> take the pointer for a \<^verbatim>\<open>dbNet\<close> without
  looking at its type.
\<close>

definition isPower :: "dbBlock \<Rightarrow> Net \<Rightarrow> fatal + bool" where
  "isPower db net =
     (case net of
        Some obj \<Rightarrow> Inr (net_sigtype (nets db (getId obj)) = POWER)
      | None \<Rightarrow> Inl null_dereference)"

definition isGround :: "dbBlock \<Rightarrow> Net \<Rightarrow> fatal + bool" where
  "isGround db net =
     (case net of
        Some obj \<Rightarrow> Inr (net_sigtype (nets db (getId obj)) = GROUND)
      | None \<Rightarrow> Inl null_dereference)"

section \<open>Connectivity traversal\<close>

text \<open>
  The visitor is modelled by the sequence of pins it was called with; \<^verbatim>\<open>visited_nets\<close>
  is the caller's \<^verbatim>\<open>NetSet\<close>, as the list of its members in the order of their
  insertion.
\<close>

record visit_state =
  visited_pins :: "Pin list"
  visited_nets :: "Net list"

definition visitor :: "Pin \<Rightarrow> visit_state \<Rightarrow> visit_state" where
  "visitor pin st = st\<lparr>visited_pins := visited_pins st @ [pin]\<rparr>"

text \<open>
  The \<^verbatim>\<open>NetSet\<close> belongs to the timing engine.  What the adapter relies on: the set
  is ordered by the identifiers of the nets, \<^verbatim>\<open>dbNetwork::id(const Net*)\<close>.  A lookup
  or an insertion in an empty set compares nothing.  In a set with members it computes the
  identifier of the key and compares it with identifiers of members; a net is a member when
  a member has its identifier.  An identifier that cannot be computed (a null net, a module
  net without hierarchy, a type without tag, a number beyond capacity) ends the call as
  \<^verbatim>\<open>id\<close> does.  After a lookup that has returned, the insertion of the same key
  computes the same identifiers again and returns.  In a set that the traversal has built
  from the empty set, every member but the first was the key of a lookup in a set with
  members, and the first is compared in the lookup that follows its insertion; so a lookup
  there returns exactly when the identifiers of the key and of all members can be
  computed, which is what \<open>hasKey\<close> asks.
\<close>

fun member_ids :: "bool \<Rightarrow> id_tags \<Rightarrow> Net list \<Rightarrow> fatal + 32 word list" where
  "member_ids hierarchy tags [] = Inr []"
| "member_ids hierarchy tags (net # rest) =
     (case id_net hierarchy tags net of
        Inl e \<Rightarrow> Inl e
      | Inr k \<Rightarrow>
          (case member_ids hierarchy tags rest of
             Inl e \<Rightarrow> Inl e
           | Inr ks \<Rightarrow> Inr (k # ks)))"

definition hasKey :: "bool \<Rightarrow> id_tags \<Rightarrow> Net list \<Rightarrow> Net \<Rightarrow> fatal + bool" where
  "hasKey hierarchy tags members net =
     (if members = [] then Inr False
      else
        (case id_net hierarchy tags net of
           Inl e \<Rightarrow> Inl e
         | Inr k \<Rightarrow>
             (case member_ids hierarchy tags members of
                Inl e \<Rightarrow> Inl e
              | Inr ks \<Rightarrow> Inr (k \<in> set ks))))"

text \<open>
  \<^verbatim>\<open>dbNetwork::visitConnectedPins\<close>; the first two arguments are the adapter's
  \<^verbatim>\<open>hierarchy_\<close> flag and the tags of its identifiers.  The recursion depth is bounded
  by the third argument: \<open>None\<close> says that the bound was reached, \<open>Some (Inl e)\<close> that the
  call did not return normally, \<open>Some (Inr st)\<close> that it returned with visitor and net set
  as in \<open>st\<close>.  The two functions after it are the loops ``visit below nets'' and ``visit
  above nets''.  Below, \<^verbatim>\<open>name(below_pin)\<close> is called on the pin found by name; on a
  null pin that call does not return.  Above, \<^verbatim>\<open>findModITerm\<close> is called through the
  module's instance pointer, which is null for a module without instance.
\<close>

fun visitConnectedPins ::
    "bool \<Rightarrow> id_tags \<Rightarrow> nat \<Rightarrow> dbBlock \<Rightarrow> Net \<Rightarrow> visit_state \<Rightarrow> (fatal + visit_state) option"
  and visit_below ::
    "bool \<Rightarrow> id_tags \<Rightarrow> nat \<Rightarrow> dbBlock \<Rightarrow> dbId list \<Rightarrow> visit_state \<Rightarrow> (fatal + visit_state) option"
  and visit_above ::
    "bool \<Rightarrow> id_tags \<Rightarrow> nat \<Rightarrow> dbBlock \<Rightarrow> dbId list \<Rightarrow> visit_state \<Rightarrow> (fatal + visit_state) option"
where
  "visitConnectedPins hierarchy tags 0 db net st = None"
| "visitConnectedPins hierarchy tags (Suc depth) db net st =
     (case hasKey hierarchy tags (visited_nets st) net of
        Inl e \<Rightarrow> Some (Inl e)
      | Inr True \<Rightarrow> Some (Inr st)
      | Inr False \<Rightarrow>
        (let st0 = st\<lparr>visited_nets := visited_nets st @ [net]\<rparr> in
         case staToDb_net net of (db_net, mod_net) \<Rightarrow>
           (case mod_net of
              Some m \<Rightarrow>
                (let st1 = fold visitor (map dbToSta_iterm (modnet_getITerms db m)) st0;
                     st2 = fold visitor (map dbToSta_bterm (modnet_getBTerms db m)) st1;
                     st3 = fold visitor (map (\<lambda>b. dbToStaPin (Some b)) (modnet_getModBTerms db m)) st2;
                     st4 = fold visitor (map dbToSta_moditerm (modnet_getModITerms db m)) st3
                 in (case visit_below hierarchy tags depth db (modnet_getModITerms db m) st4 of
                       None \<Rightarrow> None
                     | Some (Inl e) \<Rightarrow> Some (Inl e)
                     | Some (Inr st5) \<Rightarrow>
                         visit_above hierarchy tags depth db (modnet_getModBTerms db m) st5))
            | None \<Rightarrow>
                (case db_net of
                   Some d \<Rightarrow>
                     (let st1 = fold visitor (map dbToSta_iterm (net_getITerms db d)) st0;
                          st2 = fold visitor (map dbToSta_bterm (net_getBTerms db d)) st1
                      in Some (Inr st2))
                 | None \<Rightarrow> Some (Inr st0)))))"
| "visit_below hierarchy tags depth db [] st = Some (Inr st)"
| "visit_below hierarchy tags depth db (moditerm # rest) st =
     (let mod_inst = moditerm_parent (moditerms db moditerm);
          module_master = modinst_master (modinsts db mod_inst);
          pin_name = moditerm_name (moditerms db moditerm);
          mod_bterm = findModBTerm db module_master pin_name;
          below_pin = dbToStaPin mod_bterm
      in if mod_bterm = None then Some (Inl null_dereference)
         else
           (let st1 = visitor below_pin st;
                below_net = net_pin db below_pin
            in (case visitConnectedPins hierarchy tags depth db below_net st1 of
                  None \<Rightarrow> None
                | Some (Inl e) \<Rightarrow> Some (Inl e)
                | Some (Inr st2) \<Rightarrow> visit_below hierarchy tags depth db rest st2)))"
| "visit_above hierarchy tags depth db [] st = Some (Inr st)"
| "visit_above hierarchy tags depth db (modbterm # rest) st =
     (let db_module = modbterm_parent (modbterms db modbterm);
          pin_name = modbterm_name (modbterms db modbterm)
      in (case module_modinst (modules db db_module) of
            None \<Rightarrow> Some (Inl null_dereference)
          | Some mod_inst \<Rightarrow>
              (case findModITerm db mod_inst pin_name of
                 Some mod_iterm \<Rightarrow>
                   (let above_pin = dbToSta_moditerm mod_iterm;
                        st1 = visitor above_pin st;
                        above_net = net_pin db above_pin
                    in (case visitConnectedPins hierarchy tags depth db above_net st1 of
                          None \<Rightarrow> None
                        | Some (Inl e) \<Rightarrow> Some (Inl e)
                        | Some (Inr st2) \<Rightarrow> visit_above hierarchy tags depth db rest st2))
               | None \<Rightarrow> visit_above hierarchy tags depth db rest st)))"

text \<open>The entry point: the traversal of a net with a fresh visitor and an empty net set.\<close>

definition connectedPins :: "bool \<Rightarrow> id_tags \<Rightarrow> nat \<Rightarrow> dbBlock \<Rightarrow> Net \<Rightarrow> (fatal + visit_state) option" where
  "connectedPins hierarchy tags depth db net =
     visitConnectedPins hierarchy tags depth db net \<lparr>visited_pins = [], visited_nets = []\<rparr>"












section \<open>Port directions\<close>

text \<open>The direction singletons of the timing engine.\<close>

datatype PortDirection =
    dir_input | dir_output | dir_tristate | dir_bidirect | dir_internal
  | dir_ground | dir_power | dir_unknown

definition isPowerGround :: "PortDirection \<Rightarrow> bool" where
  "isPowerGround d = (d = dir_ground \<or> d = dir_power)"

text \<open>
  \<^verbatim>\<open>dbToSta(const dbSigType&, const dbIoType&)\<close>.  The four tests on the IO type cover
  every value of \<^verbatim>\<open>dbIoType\<close>, so the critical message 2008 after them is never
  reached.
\<close>

definition dbToSta_dir :: "dbSigType \<Rightarrow> dbIoType \<Rightarrow> PortDirection" where
  "dbToSta_dir sig_type io_type =
     (if sig_type = POWER then dir_power
      else if sig_type = GROUND then dir_ground
      else if io_type = INPUT then dir_input
      else if io_type = OUTPUT then dir_output
      else if io_type = INOUT then dir_bidirect
      else dir_bidirect)"

text \<open>\<^verbatim>\<open>staToDb(PortDirection*, sig_type, io_type)\<close>.\<close>

definition staToDb_dir :: "PortDirection \<Rightarrow> fatal + (dbSigType \<times> dbIoType)" where
  "staToDb_dir dir =
     (if dir = dir_input then Inr (SIGNAL, INPUT)
      else if dir = dir_output then Inr (SIGNAL, OUTPUT)
      else if dir = dir_bidirect then Inr (SIGNAL, INOUT)
      else if dir = dir_power then Inr (POWER, INOUT)
      else if dir = dir_ground then Inr (GROUND, INOUT)
      else Inl (log_critical 2007))"

section \<open>Building library cells\<close>

text \<open>
  A master of a physical library with its terminals, and a cell of the timing library
  with its ports and its power/ground ports.
\<close>

record dbMTerm =
  mterm_id :: dbId
  mterm_name :: string
  mterm_sigtype :: dbSigType
  mterm_iotype :: dbIoType

record dbMaster =
  master_name :: string
  master_mterms :: "dbMTerm list"

record LibertyPort =
  liberty_port_name :: string
  liberty_port_direction :: PortDirection

record LibertyCell =
  liberty_cell_name :: string
  liberty_ports :: "LibertyPort list"
  liberty_pg_ports :: "string list"

definition findLibertyPort :: "LibertyCell \<Rightarrow> string \<Rightarrow> LibertyPort option" where
  "findLibertyPort lib_cell name = find (\<lambda>p. liberty_port_name p = name) (liberty_ports lib_cell)"

definition findPgPort :: "LibertyCell \<Rightarrow> string \<Rightarrow> string option" where
  "findPgPort lib_cell name = find (\<lambda>p. p = name) (liberty_pg_ports lib_cell)"

text \<open>\<^verbatim>\<open>findLibertyCell\<close>: the first cell of that name in the timing libraries read so
  far, in reading order.\<close>

definition findLibertyCell :: "LibertyCell list list \<Rightarrow> string \<Rightarrow> LibertyCell option" where
  "findLibertyCell libs name = find (\<lambda>c. liberty_cell_name c = name) (concat libs)"

text \<open>The cell and ports the adapter makes.\<close>

record ConcretePort =
  port_name :: string
  port_direction :: PortDirection
  port_liberty :: "LibertyPort option"
  port_ext :: "dbId option"

record ConcreteCell =
  cell_name :: string
  cell_is_leaf :: bool
  cell_liberty :: "LibertyCell option"
  cell_ports :: "ConcretePort list"

text \<open>A logged warning: its number and the two names in its text.\<close>

type_synonym warning = "nat \<times> string \<times> string"

text \<open>
  The loop of \<^verbatim>\<open>dbNetwork::makeCell\<close> over the terminals of the master: the ports made
  and the warnings logged, in order.
\<close>

fun makeCell_ports :: "string \<Rightarrow> LibertyCell option \<Rightarrow> dbMTerm list \<Rightarrow> ConcretePort list \<times> warning list" where
  "makeCell_ports cname lib_cell [] = ([], [])"
| "makeCell_ports cname lib_cell (mterm # rest) =
     (let pname = mterm_name mterm;
          dir = dbToSta_dir (mterm_sigtype mterm) (mterm_iotype mterm);
          port = \<lparr>port_name = pname, port_direction = dir, port_liberty = None,
                  port_ext = Some (mterm_id mterm)\<rparr>;
          (port', warned) =
            (case lib_cell of
               Some lc \<Rightarrow>
                 (case findLibertyPort lc pname of
                    Some lib_port \<Rightarrow> (port\<lparr>port_liberty := Some lib_port\<rparr>, [])
                  | None \<Rightarrow>
                      if \<not> isPowerGround dir \<and> findPgPort lc pname = None
                      then (port, [(2001, cname, pname)])
                      else (port, []))
             | None \<Rightarrow> (port, []));
          (ports, warnings) = makeCell_ports cname lib_cell rest
      in (port' # ports, warned @ warnings))"

text \<open>
  \<^verbatim>\<open>dbNetwork::makeCell(Library*, dbMaster*)\<close>.  The grouping of bus ports and the
  back-pointers stored in the timing library's own objects are the timing engine's and are
  left out.
\<close>

definition makeCell :: "LibertyCell list list \<Rightarrow> dbMaster \<Rightarrow> ConcreteCell \<times> warning list" where
  "makeCell libs master =
     (let name = master_name master;
          lib_cell = findLibertyCell libs name;
          (ports, warnings) = makeCell_ports name lib_cell (master_mterms master)
      in (\<lparr>cell_name = name, cell_is_leaf = True, cell_liberty = lib_cell, cell_ports = ports\<rparr>,
          warnings))"

text \<open>The two-input gate of the specification's first scenario, and a timing cell that
  lacks the port \<^verbatim>\<open>B\<close> and lists \<^verbatim>\<open>VDD\<close> as a power port.\<close>

definition example_master :: dbMaster where
  "example_master =
     \<lparr>master_name = ''NAND2'',
      master_mterms =
        [\<lparr>mterm_id = 1, mterm_name = ''A'', mterm_sigtype = SIGNAL, mterm_iotype = INPUT\<rparr>,
         \<lparr>mterm_id = 2, mterm_name = ''B'', mterm_sigtype = SIGNAL, mterm_iotype = INPUT\<rparr>,
         \<lparr>mterm_id = 3, mterm_name = ''Z'', mterm_sigtype = SIGNAL, mterm_iotype = OUTPUT\<rparr>,
         \<lparr>mterm_id = 4, mterm_name = ''VDD'', mterm_sigtype = SIGNAL, mterm_iotype = INOUT\<rparr>,
         \<lparr>mterm_id = 5, mterm_name = ''VSS'', mterm_sigtype = GROUND, mterm_iotype = INOUT\<rparr>]\<rparr>"

definition example_liberty :: "LibertyCell list list" where
  "example_liberty =
     [[\<lparr>liberty_cell_name = ''NAND2'',
        liberty_ports =
          [\<lparr>liberty_port_name = ''A'', liberty_port_direction = dir_input\<rparr>,
           \<lparr>liberty_port_name = ''Z'', liberty_port_direction = dir_output\<rparr>],
        liberty_pg_ports = [''VDD'']\<rparr>]]"

section \<open>Edits\<close>

text \<open>
  The mutation primitives belong to the database.  What the adapter relies on: connecting
  a terminal sets its flat net, disconnecting clears it, a created boundary terminal gets
  an unused number, the given name and net and the database's default types, and
  destroying a net disconnects its flat terminals and destroys its boundary terminals.
  A primitive reached through a null pointer does not return.
\<close>

definition dbITerm_connect :: "dbBlock \<Rightarrow> dbId \<Rightarrow> dbId \<Rightarrow> dbBlock" where
  "dbITerm_connect db iterm dnet =
     db\<lparr>iterms := (iterms db)(iterm := (iterms db iterm)\<lparr>iterm_net := Some dnet\<rparr>)\<rparr>"


definition dbBTerm_connect :: "dbBlock \<Rightarrow> dbId \<Rightarrow> dbId \<Rightarrow> dbBlock" where
  "dbBTerm_connect db bterm dnet =
     db\<lparr>bterms := (bterms db)(bterm := (bterms db bterm)\<lparr>bterm_net := Some dnet\<rparr>)\<rparr>"


definition unused_id :: "dbId list \<Rightarrow> dbId" where
  "unused_id ids = fold max ids 0 + 1"

definition dbBTerm_create :: "dbBlock \<Rightarrow> dbId \<Rightarrow> string \<Rightarrow> dbId \<times> dbBlock" where
  "dbBTerm_create db dnet name =
     (let bterm = unused_id (bterm_ids db)
      in (bterm,
          db\<lparr>bterm_ids := bterm_ids db @ [bterm],
             bterms := (bterms db)(bterm :=
               \<lparr>bterm_name = name, bterm_net = Some dnet, bterm_modnet = None,
                bterm_sigtype = SIGNAL, bterm_iotype = INPUT\<rparr>)\<rparr>))"

definition setSigType :: "dbBlock \<Rightarrow> dbId \<Rightarrow> dbSigType \<Rightarrow> dbBlock" where
  "setSigType db bterm sig_type =
     db\<lparr>bterms := (bterms db)(bterm := (bterms db bterm)\<lparr>bterm_sigtype := sig_type\<rparr>)\<rparr>"

definition setIoType :: "dbBlock \<Rightarrow> dbId \<Rightarrow> dbIoType \<Rightarrow> dbBlock" where
  "setIoType db bterm io_type =
     db\<lparr>bterms := (bterms db)(bterm := (bterms db bterm)\<lparr>bterm_iotype := io_type\<rparr>)\<rparr>"


text \<open>\<^verbatim>\<open>dbInst::getITerm(dbMTerm*)\<close> and \<^verbatim>\<open>dbMaster::findMTerm\<close>.\<close>

definition getITerm :: "dbBlock \<Rightarrow> dbId \<Rightarrow> dbId option \<Rightarrow> dbId option" where
  "getITerm db inst dterm =
     (case dterm of
        None \<Rightarrow> None
      | Some t \<Rightarrow>
          find (\<lambda>i. iterm_inst (iterms db i) = inst \<and> iterm_mterm (iterms db i) = t) (iterm_ids db))"

definition findMTerm :: "dbMaster \<Rightarrow> string \<Rightarrow> dbId option" where
  "findMTerm master name =
     map_option mterm_id (find (\<lambda>t. mterm_name t = name) (master_mterms master))"

text \<open>\<^verbatim>\<open>staToDb(const Net*)\<close> with one argument: the pointer is taken for a
  \<^verbatim>\<open>dbNet\<close> unchecked.\<close>

definition staToDb_flat_net :: "Net \<Rightarrow> dbId option" where
  "staToDb_flat_net net = map_option getId net"

text \<open>
  \<^verbatim>\<open>dbNetwork::connect(Instance*, Port*, Net*)\<close>: the pin returned and the block
  after the call.
\<close>

definition connect_port :: "dbBlock \<Rightarrow> Instance \<Rightarrow> ConcretePort \<Rightarrow> Net \<Rightarrow> fatal + (Pin \<times> dbBlock)" where
  "connect_port db inst port net =
     (let dnet = staToDb_flat_net net in
      if inst = Some top_instance then
        (case dnet of
           None \<Rightarrow> Inl null_dereference
         | Some dn \<Rightarrow>
             (case findBTerm db (port_name port) of
                Some bterm \<Rightarrow> Inr (dbToSta_bterm bterm, dbBTerm_connect db bterm dn)
              | None \<Rightarrow>
                  (case dbBTerm_create db dn (port_name port) of (bterm, db1) \<Rightarrow>
                     (case staToDb_dir (port_direction port) of
                        Inl e \<Rightarrow> Inl e
                      | Inr (sig_type, io_type) \<Rightarrow>
                          Inr (dbToSta_bterm bterm,
                               setIoType (setSigType db1 bterm sig_type) bterm io_type)))))
      else
        (case staToDb_instance inst of
           Inl e \<Rightarrow> Inl e
         | Inr (db_inst, mod_inst) \<Rightarrow>
             (case db_inst of
                Some d \<Rightarrow>
                  (case (getITerm db d (port_ext port), dnet) of
                     (Some iterm, Some dn) \<Rightarrow> Inr (dbToSta_iterm iterm, dbITerm_connect db iterm dn)
                   | _ \<Rightarrow> Inl null_dereference)
              | None \<Rightarrow> Inr (None, db))))"

text \<open>\<^verbatim>\<open>dbNetwork::connect(Instance*, LibertyPort*, Net*)\<close>; \<open>masters\<close> are the
  masters of the physical libraries by number.\<close>

definition connect_liberty_port ::
    "(dbId \<Rightarrow> dbMaster) \<Rightarrow> dbBlock \<Rightarrow> Instance \<Rightarrow> LibertyPort \<Rightarrow> Net \<Rightarrow> fatal + (Pin \<times> dbBlock)" where
  "connect_liberty_port masters db inst port net =
     (let dnet = staToDb_flat_net net;
          pname = liberty_port_name port
      in if inst = Some top_instance then
           (case dnet of
              None \<Rightarrow> Inl null_dereference
            | Some dn \<Rightarrow>
                (case (case findBTerm db pname of
                         Some bterm \<Rightarrow> (bterm, dbBTerm_connect db bterm dn)
                       | None \<Rightarrow> dbBTerm_create db dn pname) of
                   (bterm, db1) \<Rightarrow>
                     (case staToDb_dir (liberty_port_direction port) of
                        Inl e \<Rightarrow> Inl e
                      | Inr (sig_type, io_type) \<Rightarrow>
                          Inr (dbToSta_bterm bterm,
                               setIoType (setSigType db1 bterm sig_type) bterm io_type))))
         else
           (case staToDb_instance inst of
              Inl e \<Rightarrow> Inl e
            | Inr (db_inst, mod_inst) \<Rightarrow>
                (case db_inst of
                   Some d \<Rightarrow>
                     (let dterm = findMTerm (masters (inst_master (insts db d))) pname
                      in (case (getITerm db d dterm, dnet) of
                            (Some iterm, Some dn) \<Rightarrow>
                              Inr (dbToSta_iterm iterm, dbITerm_connect db iterm dn)
                          | _ \<Rightarrow> Inl null_dereference))
                 | None \<Rightarrow> Inr (None, db))))"


section \<open>The driver index\<close>


















text \<open>
  A port and a timing-library port named \<^verbatim>\<open>clk\<close> with direction output, and what a
  connect call leaves on a boundary terminal: the pin returned, and the net and types of
  the terminal afterwards.
\<close>

definition clk_port :: ConcretePort where
  "clk_port = \<lparr>port_name = ''clk'', port_direction = dir_output, port_liberty = None, port_ext = None\<rparr>"

definition clk_liberty_port :: LibertyPort where
  "clk_liberty_port = \<lparr>liberty_port_name = ''clk'', liberty_port_direction = dir_output\<rparr>"

definition bterm_after :: "dbId \<Rightarrow> fatal + (Pin \<times> dbBlock) \<Rightarrow> fatal + (Pin \<times> dbId option \<times> dbSigType \<times> dbIoType)" where
  "bterm_after b r =
     map_sum id (\<lambda>(pin, db). (pin, bterm_net (bterms db b), bterm_sigtype (bterms db b),
                               bterm_iotype (bterms db b))) r"

section \<open>A small hierarchical design\<close>

text \<open>
  The top module (1) holds the leaf \<^verbatim>\<open>u1\<close>, the module instance \<^verbatim>\<open>sub\<close> and
  the module net \<^verbatim>\<open>top_net\<close> (1), which joins \<^verbatim>\<open>u1/Z\<close>, the port \<^verbatim>\<open>clk\<close> and
  the module terminal \<^verbatim>\<open>sub/in\<close>.  Inside \<^verbatim>\<open>sub\<close> (module 2) the boundary terminal
  \<^verbatim>\<open>in\<close> is joined by module net 2 to the leaf terminal \<^verbatim>\<open>g1/A\<close>; \<^verbatim>\<open>sub\<close>
  also holds the empty module instance \<^verbatim>\<open>core\<close> (module 3).  The flat net 1 is the
  flattened signal; flat net 2 is the power net.
\<close>

definition example_iterms :: "dbId \<Rightarrow> dbITerm" where
  "example_iterms i =
     (if i = 1 then
        \<lparr>iterm_inst = 1, iterm_mterm = 1, iterm_net = Some 1, iterm_modnet = Some 2,
         iterm_sigtype = SIGNAL, iterm_iotype = INPUT\<rparr>
      else if i = 2 then
        \<lparr>iterm_inst = 2, iterm_mterm = 2, iterm_net = Some 1, iterm_modnet = Some 1,
         iterm_sigtype = SIGNAL, iterm_iotype = OUTPUT\<rparr>
      else
        \<lparr>iterm_inst = 1, iterm_mterm = 3, iterm_net = Some 2, iterm_modnet = None,
         iterm_sigtype = POWER, iterm_iotype = INOUT\<rparr>)"

definition example_bterms :: "dbId \<Rightarrow> dbBTerm" where
  "example_bterms i =
     (if i = 1 then
        \<lparr>bterm_name = ''clk'', bterm_net = Some 1, bterm_modnet = Some 1,
         bterm_sigtype = SIGNAL, bterm_iotype = INPUT\<rparr>
      else
        \<lparr>bterm_name = ''VDD'', bterm_net = Some 2, bterm_modnet = None,
         bterm_sigtype = POWER, bterm_iotype = INOUT\<rparr>)"

definition example_insts :: "dbId \<Rightarrow> dbInst" where
  "example_insts i =
     (if i = 1 then \<lparr>inst_name = ''sub/g1'', inst_master = 1, inst_module = 2\<rparr>
      else \<lparr>inst_name = ''u1'', inst_master = 1, inst_module = 1\<rparr>)"

definition example_modinsts :: "dbId \<Rightarrow> dbModInst" where
  "example_modinsts i =
     (if i = 1 then \<lparr>modinst_name = ''sub'', modinst_parent = 1, modinst_master = 2\<rparr>
      else \<lparr>modinst_name = ''sub/core'', modinst_parent = 2, modinst_master = 3\<rparr>)"

definition example_modules :: "dbId \<Rightarrow> dbModule" where
  "example_modules i =
     (if i = 1 then \<lparr>module_getName = ''top'', module_modinst = None\<rparr>
      else if i = 2 then \<lparr>module_getName = ''sub_mod'', module_modinst = Some 1\<rparr>
      else \<lparr>module_getName = ''core_mod'', module_modinst = Some 2\<rparr>)"

definition example_nets :: "dbId \<Rightarrow> dbNet" where
  "example_nets i =
     (if i = 1 then \<lparr>net_name = ''top_net'', net_sigtype = SIGNAL\<rparr>
      else \<lparr>net_name = ''VDD'', net_sigtype = POWER\<rparr>)"

definition example_db :: dbBlock where
  "example_db =
     \<lparr>iterm_ids = [1, 2, 3], iterms = example_iterms,
      bterm_ids = [1, 2], bterms = example_bterms,
      moditerm_ids = [1],
      moditerms = (\<lambda>i. \<lparr>moditerm_name = ''in'', moditerm_parent = 1, moditerm_modnet = Some 1\<rparr>),
      modbterm_ids = [1],
      modbterms = (\<lambda>i. \<lparr>modbterm_name = ''in'', modbterm_parent = 2, modbterm_modnet = Some 2,
                          modbterm_sigtype = SIGNAL, modbterm_iotype = INPUT\<rparr>),
      inst_ids = [1, 2], insts = example_insts,
      modinst_ids = [1, 2], modinsts = example_modinsts,
      module_ids = [1, 2, 3], modules = example_modules,
      net_ids = [1, 2], nets = example_nets,
      modnet_ids = [1, 2],
      top_module = 1\<rparr>"

text \<open>The same design with the boundary terminal \<^verbatim>\<open>in\<close> on no module net.\<close>

definition example_db_open :: dbBlock where
  "example_db_open =
     example_db\<lparr>modbterms := (\<lambda>i. \<lparr>modbterm_name = ''in'', modbterm_parent = 2, modbterm_modnet = None,
                          modbterm_sigtype = SIGNAL, modbterm_iotype = INPUT\<rparr>)\<rparr>"

section \<open>Notions used in the proofs\<close>






section \<open>Auxiliary facts\<close>

subsection \<open>Tagged identifiers\<close>











subsection \<open>Identifiers without hierarchy\<close>





subsection \<open>Children of an instance\<close>

lemma children_eq:
  "children it = map (\<lambda>i. dbToSta_inst (Some i)) (dbinst_iter it)
               @ map (\<lambda>i. dbToSta_modinst (Some i)) (modinst_iter it)"
proof (induction it rule: children.induct)
  case (1 it)
  show ?case
  proof (cases "dbinst_iter it")
    case (Cons c rest)
    with 1 [of "dbToSta_inst (Some c)" "it\<lparr>dbinst_iter := rest\<rparr>"] show ?thesis
      by (subst children.simps) (simp add: child_hasNext_def)
  next
    case Nil
    note n = this
    show ?thesis
    proof (cases "modinst_iter it")
      case (Cons c rest)
      with n 1 [of "dbToSta_modinst (Some c)" "it\<lparr>modinst_iter := rest\<rparr>"] show ?thesis
        by (subst children.simps) (simp add: child_hasNext_def)
    next
      case Nil
      with n show ?thesis by (subst children.simps) (simp add: child_hasNext_def)
    qed
  qed
qed

lemma childIterator_modinst:
  "childIterator True db (dbToSta_modinst (Some M)) =
     Inr (map (\<lambda>i. dbToSta_inst (Some i)) (module_getInsts db (modinst_master (modinsts db M)))
          @ map (\<lambda>i. dbToSta_modinst (Some i)) (module_getModInsts db (modinst_master (modinsts db M))))"
  by (simp add: childIterator_def DbInstanceChildIterator_def dbToSta_modinst_def
      staToDb_instance_def children_eq)

lemma example_children:
  "childIterator True example_db (dbToSta_modinst (Some 1))
     = Inr [dbToSta_inst (Some 1), dbToSta_modinst (Some 2)]"
  by (simp add: childIterator_modinst module_getInsts_def module_getModInsts_def
      example_db_def example_modinsts_def example_insts_def)

subsection \<open>The net set\<close>







subsection \<open>The traversal unfolded\<close>



declare visitConnectedPins.simps [simp del] visit_below.simps [simp del] visit_above.simps [simp del]












subsection \<open>The traversal: what a returning call has done\<close>

















subsection \<open>The traversal: every call returns\<close>

















subsection \<open>The traversal: how often a pin is passed to the visitor\<close>



























subsection \<open>The traversal of the example\<close>



text \<open>
  With the boundary terminal \<^verbatim>\<open>in\<close> on no module net, the net below
  \<^verbatim>\<open>sub/in\<close> is null, and its lookup in the net set, which holds \<^verbatim>\<open>top_net\<close>,
  does not return.  Without hierarchy the lookup of module net 2 compares it with
  \<^verbatim>\<open>top_net\<close> through the number of a flat net that neither has.
\<close>

lemma example_traversal_null_net:
  "connectedPins True header_tags 4 example_db_open (dbToSta_modnet (Some 1)) = Some (Inl null_dereference)"
  by code_simp

lemma example_traversal_without_hierarchy:
  "connectedPins False header_tags 4 example_db (dbToSta_modnet (Some 1)) = Some (Inl null_dereference)"
  by code_simp

subsection \<open>Pin iterators\<close>

lemma next_signal_iterm_signal:
  "next_signal_iterm db xs = Some (i, rest) \<Longrightarrow> \<not> isSupply (iterm_sigtype (iterms db i))"
  by (induction xs) (auto split: if_splits)

lemma inst_pins_signal:
  "dbToSta_iterm i \<in> set (inst_pins hierarchy db it)
     \<Longrightarrow> \<not> pin_top it \<Longrightarrow> \<not> isSupply (iterm_sigtype (iterms db i))"
proof (induction hierarchy db it rule: inst_pins.induct)
  case (1 hierarchy db it)
  obtain more it' where h: "inst_pin_hasNext hierarchy db it = (more, it')"
    by (cases "inst_pin_hasNext hierarchy db it")
  show ?case
  proof (cases more)
    case False
    with h "1.prems"(1) show ?thesis by (simp add: inst_pins.simps [of hierarchy db it])
  next
    case True
    with h "1.prems"(1) have
      mem: "dbToSta_iterm i = inst_next it' \<or> dbToSta_iterm i \<in> set (inst_pins hierarchy db it')"
      by (simp add: inst_pins.simps [of hierarchy db it])
    have top': "\<not> pin_top it'"
      using h "1.prems"(2) by (auto simp add: inst_pin_hasNext_def split: option.splits list.splits if_splits)
    from mem show ?thesis
    proof
      assume e: "dbToSta_iterm i = inst_next it'"
      from h True "1.prems"(2) e show ?thesis
        by (auto simp add: inst_pin_hasNext_def dbToSta_iterm_def dbToSta_moditerm_def
            split: option.splits list.splits if_splits dest: next_signal_iterm_signal)
    next
      assume "dbToSta_iterm i \<in> set (inst_pins hierarchy db it')"
      moreover from True have "more = True" by simp
      ultimately show ?thesis using "1.IH" [OF h [symmetric]] top' by simp
    qed
  qed
qed

lemma net_pins_signal:
  "dbToSta_iterm i \<in> set (net_pins hierarchy db it)
     \<Longrightarrow> \<not> isSupply (iterm_sigtype (iterms db i))"
proof (induction hierarchy db it rule: net_pins.induct)
  case (1 hierarchy db it)
  obtain more it' where h: "net_pin_hasNext hierarchy db it = (more, it')"
    by (cases "net_pin_hasNext hierarchy db it")
  show ?case
  proof (cases more)
    case False
    with h "1.prems"(1) show ?thesis by (simp add: net_pins.simps [of hierarchy db it])
  next
    case True
    with h "1.prems"(1) have
      mem: "dbToSta_iterm i = net_next it' \<or> dbToSta_iterm i \<in> set (net_pins hierarchy db it')"
      by (simp add: net_pins.simps [of hierarchy db it])
    from mem show ?thesis
    proof
      assume e: "dbToSta_iterm i = net_next it'"
      from h True e show ?thesis
        by (auto simp add: net_pin_hasNext_def dbToSta_iterm_def dbToSta_moditerm_def
            split: option.splits list.splits if_splits dest: next_signal_iterm_signal)
    next
      assume "dbToSta_iterm i \<in> set (net_pins hierarchy db it')"
      moreover from True have "more = True" by simp
      ultimately show ?thesis using "1.IH" [OF h [symmetric]] by simp
    qed
  qed
qed

lemma top_pins:
  "pin_top it \<Longrightarrow> inst_pins hierarchy db it = map dbToSta_bterm (inst_bitr it)"
proof (induction hierarchy db it rule: inst_pins.induct)
  case (1 hierarchy db it)
  show ?case
  proof (cases "inst_bitr it")
    case Nil
    with "1.prems" show ?thesis
      by (simp add: inst_pins.simps [of hierarchy db it] inst_pin_hasNext_def)
  next
    case (Cons b rest)
    let ?it' = "it\<lparr>inst_next := dbToSta_bterm b, inst_bitr := rest\<rparr>"
    have h: "inst_pin_hasNext hierarchy db it = (True, ?it')"
      using Cons "1.prems" by (simp add: inst_pin_hasNext_def)
    have "inst_pins hierarchy db ?it' = map dbToSta_bterm (inst_bitr ?it')"
      by (rule "1.IH" [OF h [symmetric] refl]) (simp add: "1.prems")
    with h Cons show ?thesis by (simp add: inst_pins.simps [of hierarchy db it])
  qed
qed

lemma pinIterator_top:
  "pinIterator_instance hierarchy db (Some top_instance) = Inr (map dbToSta_bterm (bterm_ids db))"
  by (simp add: pinIterator_instance_def DbInstancePinIterator_def top_pins)

lemma example_instance_pins:
  "pinIterator_instance True example_db (dbToSta_inst (Some 1)) = Inr [dbToSta_iterm 1]"
  by code_simp

lemma example_net_pins:
  "pinIterator_net True example_db (dbToSta_net (Some 2)) = []"
  by code_simp

subsection \<open>Ports and warnings of a library cell\<close>

lemma makeCell_ports_warning_iff:
  "w \<in> set (snd (makeCell_ports cname lib_cell mterms)) \<longleftrightarrow>
     (\<exists>mterm \<in> set mterms. \<exists>lc.
        w = (2001, cname, mterm_name mterm)
        \<and> \<not> isPowerGround (dbToSta_dir (mterm_sigtype mterm) (mterm_iotype mterm))
        \<and> lib_cell = Some lc
        \<and> findLibertyPort lc (mterm_name mterm) = None
        \<and> findPgPort lc (mterm_name mterm) = None)"
proof (induction mterms)
  case Nil
  show ?case by simp
next
  case (Cons mterm rest)
  obtain ports warnings where r: "makeCell_ports cname lib_cell rest = (ports, warnings)"
    by (cases "makeCell_ports cname lib_cell rest")
  with Cons.IH have IH: "w \<in> set warnings \<longleftrightarrow>
     (\<exists>mterm \<in> set rest. \<exists>lc.
        w = (2001, cname, mterm_name mterm)
        \<and> \<not> isPowerGround (dbToSta_dir (mterm_sigtype mterm) (mterm_iotype mterm))
        \<and> lib_cell = Some lc
        \<and> findLibertyPort lc (mterm_name mterm) = None
        \<and> findPgPort lc (mterm_name mterm) = None)"
    by simp
  show ?case
  proof (cases lib_cell)
    case None
    with r IH show ?thesis by (simp add: Let_def)
  next
    case (Some lc)
    show ?thesis
    proof (cases "findLibertyPort lc (mterm_name mterm)")
      case (Some lib_port)
      with r IH \<open>lib_cell = Some lc\<close> show ?thesis by (auto simp add: Let_def)
    next
      case None
      with r IH \<open>lib_cell = Some lc\<close> show ?thesis by (auto simp add: Let_def)
    qed
  qed
qed

lemma makeCell_ports_names:
  "map port_name (fst (makeCell_ports cname lib_cell mterms)) = map mterm_name mterms"
proof (induction mterms)
  case Nil
  show ?case by simp
next
  case (Cons mterm rest)
  obtain ports warnings where r: "makeCell_ports cname lib_cell rest = (ports, warnings)"
    by (cases "makeCell_ports cname lib_cell rest")
  with Cons.IH have "map port_name ports = map mterm_name rest" by simp
  with r show ?case
    by (auto simp add: Let_def split: option.splits)
qed

lemma example_makeCell_warnings:
  "snd (makeCell example_liberty example_master) = [(2001, ''NAND2'', ''B'')]"
  by (simp add: makeCell_def makeCell_ports.simps Let_def example_liberty_def example_master_def
      findLibertyCell_def findLibertyPort_def findPgPort_def dbToSta_dir_def isPowerGround_def)

subsection \<open>Boundary terminals by name\<close>

lemma example_findBTerm: "findBTerm example_db ''clk'' = Some 1"
  by (simp add: findBTerm_def example_db_def example_bterms_def)

subsection \<open>The net of a flat terminal and of a boundary terminal\<close>



subsection \<open>The nets a pin is on after an edit\<close>










subsection \<open>The driver index under the hooks\<close>





























section \<open>Properties\<close>

subsection \<open>A flat terminal on both a flat net and a module net\<close>

text \<open>
  Claim C2.  For a pin that is a flat terminal whose database terminal carries both a flat
  net and a module net, \<^verbatim>\<open>net(pin)\<close> is the module net, and that is a different
  \<^verbatim>\<open>Net*\<close> from the flat net.
\<close>

theorem net_pin_prefers_modnet:
  assumes "iterm_net (iterms db it) = Some dnet"
    and "iterm_modnet (iterms db it) = Some mnet"
  shows "net_pin db (dbToSta_iterm it) = dbToSta_modnet (Some mnet)
    \<and> net_pin db (dbToSta_iterm it) \<noteq> dbToSta_net (Some dnet)"
  using assms
  by (simp add: net_pin_def staToDb_pin_def dbToSta_iterm_def dbToSta_modnet_def dbToSta_net_def)

theorem net_pin_prefers_modnet_witness:
  "iterm_net (iterms example_db 1) = Some 1 \<and> iterm_modnet (iterms example_db 1) = Some 2
   \<and> net_pin example_db (dbToSta_iterm 1) = Some (dbObject dbModNetObj 2)"
proof -
  have n: "iterm_net (iterms example_db 1) = Some 1"
    by (simp add: example_db_def example_iterms_def)
  have m: "iterm_modnet (iterms example_db 1) = Some 2"
    by (simp add: example_db_def example_iterms_def)
  from net_pin_prefers_modnet [OF n m] n m show ?thesis
    by (simp add: dbToSta_modnet_def)
qed

subsection \<open>Boundary terminals: the pin has no net, the term has\<close>

text \<open>
  Claim C10.  For every boundary-terminal pin (a \<^verbatim>\<open>dbBTerm\<close>), \<^verbatim>\<open>net(pin)\<close> is null.
  Its term is the same terminal, and \<^verbatim>\<open>net(term(pin))\<close> is the terminal's module net
  when it has one, otherwise its flat net, otherwise null.
\<close>

theorem bterm_pin_net_null_term_net:
  "net_pin db (dbToSta_bterm b) = None
   \<and> term_pin db (dbToSta_bterm b) = dbToStaTerm_bterm b
   \<and> net_term db (term_pin db (dbToSta_bterm b)) =
       (case bterm_modnet (bterms db b) of
          Some mod_net \<Rightarrow> Some (dbObject dbModNetObj mod_net)
        | None \<Rightarrow> map_option (dbObject dbNetObj) (bterm_net (bterms db b)))"
  by (simp add: net_pin_def term_pin_def net_term_def staToDb_pin_def staToDb_term_def
      dbToSta_bterm_def dbToStaTerm_bterm_def dbToSta_modnet_def dbToSta_net_def
      split: option.splits)

theorem bterm_pin_net_null_term_net_witness:
  "net_pin example_db (dbToSta_bterm 1) = None
   \<and> net_term example_db (term_pin example_db (dbToSta_bterm 1)) = Some (dbObject dbModNetObj 1)
   \<and> net_term example_db (term_pin example_db (dbToSta_bterm 2)) = Some (dbObject dbNetObj 2)"
proof -
  have m1: "bterm_modnet (bterms example_db 1) = Some 1"
    by (simp add: example_db_def example_bterms_def)
  have m2: "bterm_modnet (bterms example_db 2) = None"
    by (simp add: example_db_def example_bterms_def)
  have n2: "bterm_net (bterms example_db 2) = Some 2"
    by (simp add: example_db_def example_bterms_def)
  from bterm_pin_net_null_term_net [of example_db 1]
    bterm_pin_net_null_term_net [of example_db 2]
  show ?thesis
    by (auto simp add: m1 m2 n2)
qed

subsection \<open>Identifiers\<close>




subsection \<open>Pointers of an unrecognised type\<close>

text \<open>
  Claim C4, as the code has it.  An instance pointer whose object is neither a
  \<^verbatim>\<open>dbInst\<close> nor a \<^verbatim>\<open>dbModInst\<close> is critical (message 2016), and identifier
  generation for a type outside the nine tagged ones is an error (2017, or 2019 when the
  number is beyond capacity).  A pin pointer of an unrecognised type only logs warning 2018
  and yields four null alternatives; a net pointer of an unrecognised type yields two null
  alternatives and no message.
\<close>

theorem unrecognised_type_by_path:
  "(\<forall>obj. getObjectType obj \<noteq> dbInstObj \<and> getObjectType obj \<noteq> dbModInstObj
        \<longrightarrow> staToDb_instance (Some (dbInstance obj)) = Inl (log_critical 2016))
   \<and> (\<forall>ty db_id.
        ty \<notin> {dbITermObj, dbBTermObj, dbInstObj, dbNetObj, dbModITermObj, dbModBTermObj,
                dbModInstObj, dbModNetObj, dbModuleObj}
        \<longrightarrow> getDbNwkObjectId tags ty db_id = Inl (log_error 2019)
            \<or> getDbNwkObjectId tags ty db_id = Inl (log_error 2017))
   \<and> (\<forall>obj. getObjectType obj \<notin> {dbITermObj, dbBTermObj, dbModBTermObj, dbModITermObj}
        \<longrightarrow> staToDb_pin (Some obj) = ((None, None, None, None), [2018]))
   \<and> (\<forall>obj. getObjectType obj \<noteq> dbNetObj \<and> getObjectType obj \<noteq> dbModNetObj
        \<longrightarrow> staToDb_net (Some obj) = (None, None))"
proof (intro conjI allI impI)
  fix ty :: dbObjectType and db_id :: dbId
  assume "ty \<notin> {dbITermObj, dbBTermObj, dbInstObj, dbNetObj, dbModITermObj, dbModBTermObj,
                dbModInstObj, dbModNetObj, dbModuleObj}"
  then show "getDbNwkObjectId tags ty db_id = Inl (log_error 2019)
            \<or> getDbNwkObjectId tags ty db_id = Inl (log_error 2017)"
    by (cases ty) (simp_all add: getDbNwkObjectId_def)
qed (simp_all add: staToDb_instance_def staToDb_pin_def staToDb_net_def)

theorem unrecognised_type_by_path_witness:
  "staToDb_instance (Some (dbInstance (dbObject dbNetObj 1))) = Inl (log_critical 2016)
   \<and> getDbNwkObjectId header_tags dbMasterObj 1 = Inl (log_error 2017)
   \<and> staToDb_pin (Some (dbObject dbInstObj 1)) = ((None, None, None, None), [2018])
   \<and> staToDb_net (Some (dbObject dbITermObj 1)) = (None, None)"
proof -
  note u = unrecognised_type_by_path [of header_tags]
  have a: "staToDb_instance (Some (dbInstance (dbObject dbNetObj 1))) = Inl (log_critical 2016)"
    using u by simp
  have c: "staToDb_pin (Some (dbObject dbInstObj 1)) = ((None, None, None, None), [2018])"
    using u by simp
  have d: "staToDb_net (Some (dbObject dbITermObj 1)) = (None, None)"
    using u by simp
  have b: "getDbNwkObjectId header_tags dbMasterObj 1 = Inl (log_error 2017)"
    by (simp add: getDbNwkObjectId_def DBIDTAG_WIDTH_def)
  from a b c d show ?thesis by simp
qed

text \<open>
  A pin pointer to a \<^verbatim>\<open>dbInst\<close>: the classification returns, and so do the queries
  built on it.
\<close>

theorem pin_of_unrecognised_type_not_fatal:
  "staToDb_pin (Some (dbObject dbInstObj 1)) = ((None, None, None, None), [2018])
   \<and> net_pin example_db (Some (dbObject dbInstObj 1)) = None
   \<and> term_pin example_db (Some (dbObject dbInstObj 1)) = None
   \<and> id_pin False header_tags (Some (dbObject dbInstObj 1)) = Inr 0
   \<and> staToDb_net (Some (dbObject dbITermObj 1)) = (None, None)"
  by (simp add: staToDb_pin_def net_pin_def term_pin_def id_pin_def staToDb_net_def)

subsection \<open>Parent of a child\<close>

text \<open>
  Claim C5, as the code has it.  Let \<open>M\<close> be a module instance whose master module
  records \<open>M\<close> as its instance (one master per instance).  Of the children that
  \<^verbatim>\<open>childIterator(M)\<close> produces, every module instance has parent \<open>M\<close>, and every
  flat instance has parent Top.
\<close>

theorem parent_of_child:
  assumes cs: "childIterator True db (dbToSta_modinst (Some M)) = Inr cs"
    and uniq: "module_modinst (modules db (modinst_master (modinsts db M))) = Some M"
  shows "\<forall>C \<in> set cs.
           (\<exists>c. C = dbToSta_modinst (Some c) \<and> parent db C = Inr (dbToSta_modinst (Some M)))
         \<or> (\<exists>i. C = dbToSta_inst (Some i) \<and> parent db C = Inr (Some top_instance))"
proof
  fix C assume "C \<in> set cs"
  with cs consider
    (flat) i where "C = dbToSta_inst (Some i)"
  | (hier) c where "C = dbToSta_modinst (Some c)"
      "c \<in> set (module_getModInsts db (modinst_master (modinsts db M)))"
    by (auto simp add: childIterator_modinst)
  then show "(\<exists>c. C = dbToSta_modinst (Some c) \<and> parent db C = Inr (dbToSta_modinst (Some M)))
         \<or> (\<exists>i. C = dbToSta_inst (Some i) \<and> parent db C = Inr (Some top_instance))"
  proof cases
    case (flat i)
    then have "parent db C = Inr (Some top_instance)"
      by (simp add: parent_def dbToSta_inst_def staToDb_instance_def)
    with flat show ?thesis by blast
  next
    case (hier c)
    from hier(2) have "modinst_parent (modinsts db c) = modinst_master (modinsts db M)"
      by (simp add: module_getModInsts_def)
    with uniq hier(1) have "parent db C = Inr (dbToSta_modinst (Some M))"
      by (simp add: parent_def dbToSta_modinst_def staToDb_instance_def)
    with hier(1) show ?thesis by blast
  qed
qed

theorem parent_of_child_witness:
  "childIterator True example_db (dbToSta_modinst (Some 1))
     = Inr [dbToSta_inst (Some 1), dbToSta_modinst (Some 2)]
   \<and> module_modinst (modules example_db (modinst_master (modinsts example_db 1))) = Some 1
   \<and> parent example_db (dbToSta_modinst (Some 2)) = Inr (dbToSta_modinst (Some 1))"
proof -
  have u: "module_modinst (modules example_db (modinst_master (modinsts example_db 1))) = Some 1"
    by (simp add: example_db_def example_modinsts_def example_modules_def)
  from parent_of_child [OF example_children u]
  have "parent example_db (dbToSta_modinst (Some 2)) = Inr (dbToSta_modinst (Some 1))"
    by (auto simp add: dbToSta_modinst_def dbToSta_inst_def)
  with example_children u show ?thesis by simp
qed

text \<open>
  The module instance \<^verbatim>\<open>sub\<close> has the leaf \<^verbatim>\<open>g1\<close> as a child, and the parent of
  \<^verbatim>\<open>g1\<close> is Top, not \<^verbatim>\<open>sub\<close>.
\<close>

theorem parent_of_flat_child_is_top:
  "childIterator True example_db (dbToSta_modinst (Some 1))
     = Inr [dbToSta_inst (Some 1), dbToSta_modinst (Some 2)]
   \<and> parent example_db (dbToSta_inst (Some 1)) = Inr (Some top_instance)
   \<and> Some top_instance \<noteq> dbToSta_modinst (Some 1)"
  by (simp add: example_children)
     (simp add: parent_def dbToSta_inst_def dbToSta_modinst_def staToDb_instance_def)

subsection \<open>Connectivity traversal\<close>




subsection \<open>Supply pins\<close>

text \<open>
  Claim C7, as the code has it.  The pin iterator of an instance and the pin iterator of a
  net never produce a flat terminal whose signal type is power or ground, and
  \<^verbatim>\<open>isPower\<close> and \<^verbatim>\<open>isGround\<close> tell the signal type of a flat net.
\<close>

theorem iterators_skip_supply_iterms:
  "(\<forall>inst pins i. pinIterator_instance hierarchy db inst = Inr pins \<and> dbToSta_iterm i \<in> set pins
       \<longrightarrow> \<not> isSupply (iterm_sigtype (iterms db i)))
   \<and> (\<forall>net i. dbToSta_iterm i \<in> set (pinIterator_net hierarchy db net)
       \<longrightarrow> \<not> isSupply (iterm_sigtype (iterms db i)))
   \<and> (\<forall>d. isPower db (dbToSta_net (Some d)) = Inr (net_sigtype (nets db d) = POWER)
          \<and> isGround db (dbToSta_net (Some d)) = Inr (net_sigtype (nets db d) = GROUND))"
proof (intro conjI allI impI)
  fix inst pins i
  assume a: "pinIterator_instance hierarchy db inst = Inr pins \<and> dbToSta_iterm i \<in> set pins"
  show "\<not> isSupply (iterm_sigtype (iterms db i))"
  proof (cases "inst = Some top_instance")
    case True
    with a show ?thesis by (auto simp add: pinIterator_top dbToSta_iterm_def dbToSta_bterm_def)
  next
    case False
    with a obtain it where it: "DbInstancePinIterator hierarchy db inst = Inr it"
      and p: "pins = inst_pins hierarchy db it"
      by (cases "DbInstancePinIterator hierarchy db inst") (auto simp add: pinIterator_instance_def)
    from it False have "\<not> pin_top it"
      by (auto simp add: DbInstancePinIterator_def Let_def split: sum.splits option.splits prod.splits)
    with a p show ?thesis by (auto dest: inst_pins_signal)
  qed
next
  fix net i
  assume "dbToSta_iterm i \<in> set (pinIterator_net hierarchy db net)"
  then show "\<not> isSupply (iterm_sigtype (iterms db i))"
    by (simp add: pinIterator_net_def net_pins_signal)
qed (simp_all add: isPower_def isGround_def dbToSta_net_def)

theorem iterators_skip_supply_iterms_witness:
  "pinIterator_instance True example_db (dbToSta_inst (Some 1)) = Inr [dbToSta_iterm 1]
   \<and> \<not> isSupply (iterm_sigtype (iterms example_db 1))
   \<and> inst_getITerms example_db 1 = [1, 3]
   \<and> isPower example_db (dbToSta_net (Some 2)) = Inr True"
proof -
  have "dbToSta_iterm 1 \<in> set [dbToSta_iterm 1]" by simp
  with iterators_skip_supply_iterms [of True example_db] example_instance_pins
  have "\<not> isSupply (iterm_sigtype (iterms example_db 1))" by blast
  moreover have "inst_getITerms example_db 1 = [1, 3]"
    by (simp add: inst_getITerms_def example_db_def example_iterms_def)
  moreover from iterators_skip_supply_iterms [of True example_db]
  have "isPower example_db (dbToSta_net (Some 2)) = Inr (net_sigtype (nets example_db 2) = POWER)"
    by blast
  then have "isPower example_db (dbToSta_net (Some 2)) = Inr True"
    by (simp add: example_db_def example_nets_def)
  ultimately show ?thesis using example_instance_pins by simp
qed

text \<open>
  The filter is on flat terminals in the two iterators only.  The pin iterator of the top
  instance produces the power port \<^verbatim>\<open>VDD\<close>, and the traversal of the power net
  visits the power terminal of \<^verbatim>\<open>g1\<close> and that port.
\<close>

theorem supply_pins_enumerated:
  "pinIterator_instance True example_db (Some top_instance) = Inr [dbToSta_bterm 1, dbToSta_bterm 2]
   \<and> isSupply (bterm_sigtype (bterms example_db 2))
   \<and> map_option (map_sum id visited_pins) (connectedPins True header_tags 1 example_db (dbToSta_net (Some 2)))
       = Some (Inr [dbToSta_iterm 3, dbToSta_bterm 2])
   \<and> isSupply (iterm_sigtype (iterms example_db 3))"
proof -
  have "pinIterator_instance True example_db (Some top_instance) = Inr [dbToSta_bterm 1, dbToSta_bterm 2]"
    by (simp add: pinIterator_top) (simp add: example_db_def)
  moreover have "isSupply (bterm_sigtype (bterms example_db 2))"
    by (simp add: isSupply_def example_db_def example_bterms_def)
  moreover have "map_option (map_sum id visited_pins) (connectedPins True header_tags 1 example_db (dbToSta_net (Some 2)))
       = Some (Inr [dbToSta_iterm 3, dbToSta_bterm 2])"
    by code_simp
  moreover have "isSupply (iterm_sigtype (iterms example_db 3))"
    by (simp add: isSupply_def example_db_def example_iterms_def)
  ultimately show ?thesis by simp
qed

subsection \<open>Warnings while building a library cell\<close>

text \<open>
  Claim C8.  \<^verbatim>\<open>makeCell\<close> logs warning 2001 for a cell name and a port name exactly
  when the cell is the one being built, the master has a terminal of that name whose
  direction is neither power nor ground, a timing cell of the cell's name exists, and that
  timing cell has neither a port nor a power/ground port of that name.  It logs nothing
  else, and it makes a port for every terminal of the master, with or without warnings.
\<close>

theorem makeCell_warns_exactly:
  "((2001, cn, pn) \<in> set (snd (makeCell libs master)) \<longleftrightarrow>
      cn = master_name master
      \<and> (\<exists>mterm \<in> set (master_mterms master). \<exists>lc.
            mterm_name mterm = pn
            \<and> \<not> isPowerGround (dbToSta_dir (mterm_sigtype mterm) (mterm_iotype mterm))
            \<and> findLibertyCell libs (master_name master) = Some lc
            \<and> findLibertyPort lc pn = None
            \<and> findPgPort lc pn = None))
   \<and> (\<forall>w \<in> set (snd (makeCell libs master)). fst w = 2001)
   \<and> map port_name (cell_ports (fst (makeCell libs master))) = map mterm_name (master_mterms master)"
proof -
  let ?lc = "findLibertyCell libs (master_name master)"
  obtain ports warnings where
    r: "makeCell_ports (master_name master) ?lc (master_mterms master) = (ports, warnings)"
    by (cases "makeCell_ports (master_name master) ?lc (master_mterms master)")
  then have s: "snd (makeCell libs master) = warnings"
    and p: "cell_ports (fst (makeCell libs master)) = ports"
    by (simp_all add: makeCell_def Let_def)
  have w: "\<And>w. w \<in> set warnings \<longleftrightarrow>
     (\<exists>mterm \<in> set (master_mterms master). \<exists>lc.
        w = (2001, master_name master, mterm_name mterm)
        \<and> \<not> isPowerGround (dbToSta_dir (mterm_sigtype mterm) (mterm_iotype mterm))
        \<and> ?lc = Some lc
        \<and> findLibertyPort lc (mterm_name mterm) = None
        \<and> findPgPort lc (mterm_name mterm) = None)"
    using makeCell_ports_warning_iff [of _ "master_name master" ?lc "master_mterms master"] r
    by simp
  have a: "(2001, cn, pn) \<in> set warnings \<longleftrightarrow>
      cn = master_name master
      \<and> (\<exists>mterm \<in> set (master_mterms master). \<exists>lc.
            mterm_name mterm = pn
            \<and> \<not> isPowerGround (dbToSta_dir (mterm_sigtype mterm) (mterm_iotype mterm))
            \<and> ?lc = Some lc
            \<and> findLibertyPort lc pn = None
            \<and> findPgPort lc pn = None)"
    unfolding w by auto
  have b: "\<forall>w \<in> set warnings. fst w = 2001"
  proof
    fix x assume "x \<in> set warnings"
    then obtain mterm :: dbMTerm where "x = (2001, master_name master, mterm_name mterm)"
      unfolding w by blast
    then show "fst x = 2001" by simp
  qed
  have c: "map port_name ports = map mterm_name (master_mterms master)"
    using makeCell_ports_names [of "master_name master" ?lc "master_mterms master"] r by simp
  from a b c show ?thesis unfolding s p by blast
qed

theorem makeCell_warns_exactly_witness:
  "snd (makeCell example_liberty example_master) = [(2001, ''NAND2'', ''B'')]
   \<and> map port_name (cell_ports (fst (makeCell example_liberty example_master)))
       = [''A'', ''B'', ''Z'', ''VDD'', ''VSS'']
   \<and> findLibertyPort (hd (hd example_liberty)) ''B'' = None
   \<and> findPgPort (hd (hd example_liberty)) ''B'' = None
   \<and> findPgPort (hd (hd example_liberty)) ''VDD'' = Some ''VDD''"
proof -
  from makeCell_warns_exactly [of "''NAND2''" "''B''" example_liberty example_master]
  have "map port_name (cell_ports (fst (makeCell example_liberty example_master)))
          = map mterm_name (master_mterms example_master)"
    by blast
  then have "map port_name (cell_ports (fst (makeCell example_liberty example_master)))
       = [''A'', ''B'', ''Z'', ''VDD'', ''VSS'']"
    by (simp add: example_master_def)
  moreover have "findLibertyPort (hd (hd example_liberty)) ''B'' = None"
    "findPgPort (hd (hd example_liberty)) ''B'' = None"
    "findPgPort (hd (hd example_liberty)) ''VDD'' = Some ''VDD''"
    by (simp_all add: example_liberty_def findLibertyPort_def findPgPort_def)
  ultimately show ?thesis using example_makeCell_warnings by simp
qed

subsection \<open>The driver index\<close>




subsection \<open>Connecting at the top instance\<close>

text \<open>
  Claim C9 at the input where the code departs from it.  The block has the boundary
  terminal \<^verbatim>\<open>clk\<close> with types \<^verbatim>\<open>SIGNAL\<close>/\<^verbatim>\<open>INPUT\<close>.  Connecting the port
  \<^verbatim>\<open>clk\<close> of direction output at Top through \<^verbatim>\<open>connect(Instance*, Port*, Net*)\<close>
  reuses the terminal and moves it to the net, but leaves its types as they were, where
  the direction asks for \<^verbatim>\<open>SIGNAL\<close>/\<^verbatim>\<open>OUTPUT\<close>; the overload for a
  timing-library port sets them.
\<close>

theorem connect_port_reuse_keeps_types:
  "bterm_after 1 (connect_port example_db (Some top_instance) clk_port (dbToSta_net (Some 2)))
     = Inr (dbToSta_bterm 1, Some 2, SIGNAL, INPUT)
   \<and> staToDb_dir (port_direction clk_port) = Inr (SIGNAL, OUTPUT)
   \<and> bterm_after 1 (connect_liberty_port masters example_db (Some top_instance) clk_liberty_port
                        (dbToSta_net (Some 2)))
     = Inr (dbToSta_bterm 1, Some 2, SIGNAL, OUTPUT)"
proof -
  have a: "bterm_after 1 (connect_port example_db (Some top_instance) clk_port (dbToSta_net (Some 2)))
     = Inr (dbToSta_bterm 1, Some 2, SIGNAL, INPUT)"
    by (simp add: bterm_after_def connect_port_def staToDb_flat_net_def dbToSta_net_def
        clk_port_def example_findBTerm dbBTerm_connect_def)
       (simp add: example_db_def example_bterms_def)
  have b: "staToDb_dir (port_direction clk_port) = Inr (SIGNAL, OUTPUT)"
    by (simp add: staToDb_dir_def clk_port_def)
  have c: "bterm_after 1 (connect_liberty_port masters example_db (Some top_instance) clk_liberty_port
                        (dbToSta_net (Some 2)))
     = Inr (dbToSta_bterm 1, Some 2, SIGNAL, OUTPUT)"
    by (simp add: bterm_after_def connect_liberty_port_def staToDb_flat_net_def dbToSta_net_def
        clk_liberty_port_def example_findBTerm dbBTerm_connect_def staToDb_dir_def
        setSigType_def setIoType_def)
  from a b c show ?thesis by simp
qed

end
